theory Spec2Isabelle
  imports Main
begin

section \<open>Region behaviors that apply status effects and active effects\<close>

text \<open>
  A shallow embedding of \<^verbatim>\<open>src/region-active-effects.js\<close>: four region behaviors of a
  virtual tabletop. Each handler is a function from the behavior's own fields
  (\<^verbatim>\<open>this\<close>), the region event and the host runtime to the calls it makes into the host.
  The host (event dispatch, \<^verbatim>\<open>fromUuid\<close>, document create/update/delete,
  \<^verbatim>\<open>toggleStatusEffect\<close>, the active GM) is not part of the module: what the module
  reads from it is a parameter, and what the module asks of it is recorded as a call.
\<close>

subsection \<open>JavaScript values\<close>

text \<open>
  A nullable string field is a \<open>string option\<close>, \<open>None\<close> standing for \<^verbatim>\<open>null\<close> and
  \<^verbatim>\<open>undefined\<close>. \<^verbatim>\<open>!v\<close> is true of \<^verbatim>\<open>null\<close>, \<^verbatim>\<open>undefined\<close> and of the empty string.
\<close>

definition truthy :: "string option \<Rightarrow> bool" where
  "truthy v = (case v of None \<Rightarrow> False | Some s \<Rightarrow> s \<noteq> [])"

text \<open>A value inside a template literal: \<^verbatim>\<open>`${v}`\<close>.\<close>

definition js_string :: "string option \<Rightarrow> string" where
  "js_string v = (case v of None \<Rightarrow> ''null'' | Some s \<Rightarrow> s)"

text \<open>
  What a function body can throw: \<open>TypeError p\<close> is reading property \<open>p\<close> of
  \<^verbatim>\<open>null\<close>; \<open>Error m\<close> is \<^verbatim>\<open>throw new Error(m)\<close>.
\<close>

datatype js_error = TypeError string | Error string

text \<open>
  \<^verbatim>\<open>Array.prototype.find\<close> and the host collection's \<^verbatim>\<open>find\<close> return the first element
  that satisfies the predicate. The element is a reference to a document of the
  collection; the model keeps its position, which is what a later
  \<^verbatim>\<open>update\<close> or \<^verbatim>\<open>delete\<close> on that reference acts on.
\<close>

fun findIndex :: "('a \<Rightarrow> bool) \<Rightarrow> 'a list \<Rightarrow> nat option" where
  "findIndex P [] = None"
| "findIndex P (x # xs) = (if P x then Some 0 else map_option Suc (findIndex P xs))"

subsection \<open>Documents and events\<close>

text \<open>
  An ActiveEffect document, with the fields the module reads or writes. The type \<open>'d\<close>
  is the document's duration data, which only the host interprets.
\<close>

record 'd active_effect =
  name :: string
  origin :: "string option"
  disabled :: bool
  transfer :: bool
  duration :: 'd

record 'd actor =
  effects :: "'d active_effect list"

record 'd token =
  actor :: "'d actor option"

record 'd event_data =
  token :: "'d token option"

record user =
  isSelf :: bool

record 'd region_event =
  data :: "'d event_data option"
  user :: user

text \<open>\<^verbatim>\<open>event.data?.token?.actor\<close>\<close>

definition event_actor :: "'d region_event \<Rightarrow> 'd actor option" where
  "event_actor event =
     (case data event of None \<Rightarrow> None
      | Some d \<Rightarrow> (case token d of None \<Rightarrow> None | Some t \<Rightarrow> actor t))"

text \<open>An event whose token has the actor \<open>a\<close>, triggered by the user \<open>u\<close>.\<close>

definition token_event :: "'d actor \<Rightarrow> user \<Rightarrow> 'd region_event" where
  "token_event a u = \<lparr>data = Some \<lparr>token = Some \<lparr>actor = Some a\<rparr>\<rparr>, user = u\<rparr>"

subsection \<open>The host runtime\<close>

text \<open>
  What the module reads from the host: \<^verbatim>\<open>fromUuid(uuid)\<close> (\<open>None\<close> when the uuid
  resolves to no document), \<^verbatim>\<open>ActiveEffect.getInitialDuration()\<close> (an object that
  holds duration data only), \<^verbatim>\<open>game.users.activeGM\<close>, and how a document update
  merges a duration patch into the duration a document has.
\<close>

record 'd host =
  fromUuid :: "string option \<Rightarrow> 'd active_effect option"
  getInitialDuration :: 'd
  activeGM :: "user option"
  mergeDuration :: "'d \<Rightarrow> 'd \<Rightarrow> 'd"

text \<open>
  \<^verbatim>\<open>actor.toggleStatusEffect(statusId, {active, overlay})\<close> on the event's actor. An
  option that is \<^verbatim>\<open>undefined\<close> or not passed is \<open>None\<close>.
\<close>

datatype status_call = ToggleStatusEffect "string option" "bool option" "bool option"

text \<open>
  The patch of \<^verbatim>\<open>existingEffect.update(patch)\<close>: a key that the patch does not have is
  \<open>None\<close>.
\<close>

record 'd effect_patch =
  patch_duration :: "'d option"
  patch_disabled :: "bool option"

text \<open>
  The document calls on the effects of the event's actor: \<open>Update i p\<close> is
  \<^verbatim>\<open>update(p)\<close> on the effect found at position \<open>i\<close>, \<open>Delete i\<close> is \<^verbatim>\<open>delete()\<close> on
  it, \<open>Create d\<close> is \<^verbatim>\<open>ActiveEffect.implementation.create(d, {parent: actor})\<close>.
\<close>

datatype 'd effect_call =
    Update nat "'d effect_patch"
  | Delete nat
  | Create "'d active_effect"

text \<open>
  What running a handler does: the document calls it made, in order, and the errors
  thrown inside the async functions it called without awaiting them, which reject
  promises that nobody handles. A call is a request: \<^verbatim>\<open>create\<close>, \<^verbatim>\<open>update\<close> and
  \<^verbatim>\<open>delete\<close> are async, and the handlers drop the promise of
  \<^verbatim>\<open>applyEffectToActor\<close>, so a handler returns before the host has carried its calls out.
\<close>

record 'd outcome =
  calls :: "'d effect_call list"
  unhandled :: "js_error list"

definition no_op :: "'d outcome" where
  "no_op = \<lparr>calls = [], unhandled = []\<rparr>"

text \<open>
  A call of an async function whose promise is dropped: its calls are made, and an
  error thrown in its body is an unhandled rejection.
\<close>

definition not_awaited :: "js_error + 'd effect_call list \<Rightarrow> 'd outcome" where
  "not_awaited r =
     (case r of Inl e \<Rightarrow> \<lparr>calls = [], unhandled = [e]\<rparr>
      | Inr cs \<Rightarrow> \<lparr>calls = cs, unhandled = []\<rparr>)"

subsection \<open>The host's documents\<close>

text \<open>
  What the calls do to the effects of the actor once the host carries them out, as the
  host's document API has it: an update merges the patch's keys into the document, a
  delete removes the document, a create adds one at the end of the collection. A handler
  that runs before the calls of an earlier one are carried out reads the effects as they
  were before them.
\<close>

definition applyPatch :: "'d host \<Rightarrow> 'd effect_patch \<Rightarrow> 'd active_effect \<Rightarrow> 'd active_effect" where
  "applyPatch h p e =
     e\<lparr>disabled := (case patch_disabled p of None \<Rightarrow> disabled e | Some b \<Rightarrow> b),
       duration := (case patch_duration p of None \<Rightarrow> duration e
                    | Some d \<Rightarrow> mergeDuration h (duration e) d)\<rparr>"

fun host_call :: "'d host \<Rightarrow> 'd active_effect list \<Rightarrow> 'd effect_call \<Rightarrow> 'd active_effect list" where
  "host_call h es (Update i p) = (if i < length es then es[i := applyPatch h p (es ! i)] else es)"
| "host_call h es (Delete i) = (if i < length es then take i es @ drop (Suc i) es else es)"
| "host_call h es (Create d) = es @ [d]"

definition host_calls :: "'d host \<Rightarrow> 'd effect_call list \<Rightarrow> 'd active_effect list \<Rightarrow> 'd active_effect list" where
  "host_calls h cs es = foldl (host_call h) es cs"

subsection \<open>StatusEffectRegionBehaviorType\<close>

record status_effect_behavior =
  statusId :: "string option"
  overlay :: bool

definition StatusEffect_onTokenEnter :: "status_effect_behavior \<Rightarrow> 'd region_event \<Rightarrow> status_call list" where
  "StatusEffect_onTokenEnter this event =
     (if event_actor event = None \<or> \<not> truthy (statusId this) then []
      else if \<not> isSelf (user event) then []
      else [ToggleStatusEffect (statusId this) (Some True) (Some (overlay this))])"

definition StatusEffect_onTokenExit :: "status_effect_behavior \<Rightarrow> 'd region_event \<Rightarrow> status_call list" where
  "StatusEffect_onTokenExit this event =
     (if event_actor event = None \<or> \<not> truthy (statusId this) then []
      else if \<not> isSelf (user event) then []
      else [ToggleStatusEffect (statusId this) (Some False) None])"

subsection \<open>StatusEffectEventsRegionBehaviorType\<close>

record status_effect_events_behavior = status_effect_behavior +
  status_action :: string

definition StatusEffectEvents_handleRegionEvent ::
  "status_effect_events_behavior \<Rightarrow> 'd region_event \<Rightarrow> status_call list" where
  "StatusEffectEvents_handleRegionEvent this event =
     (if event_actor event = None \<or> \<not> truthy (statusId this) then []
      else let active = (if status_action this = ''apply'' then Some True
                         else if status_action this = ''remove'' then Some False
                         else None)
           in [ToggleStatusEffect (statusId this) active (Some (overlay this))])"

subsection \<open>applyEffectToActor\<close>

text \<open>
  The behavior is given by its uuid, the only property of it that the function reads.
  The function is async: \<open>Inl\<close> is the error its promise rejects with. With no document
  for \<open>effect\<close>, evaluating the argument of \<^verbatim>\<open>update\<close> reads \<^verbatim>\<open>effect.constructor\<close>, and
  building the data of the new effect calls \<^verbatim>\<open>effect.toObject()\<close>.
\<close>

definition applyEffectToActor ::
  "'d host \<Rightarrow> 'd active_effect option \<Rightarrow> 'd actor \<Rightarrow> string \<Rightarrow> js_error + 'd effect_call list" where
  "applyEffectToActor h effect a behavior =
     (case findIndex (\<lambda>e. origin e = Some behavior) (effects a) of
        Some existingEffect \<Rightarrow>
          (case effect of
             None \<Rightarrow> Inl (TypeError ''constructor'')
           | Some t \<Rightarrow> Inr [Update existingEffect
                \<lparr>patch_duration = Some (getInitialDuration h), patch_disabled = Some False\<rparr>])
      | None \<Rightarrow>
          (case effect of
             None \<Rightarrow> Inl (TypeError ''toObject'')
           | Some t \<Rightarrow> Inr [Create (t\<lparr>disabled := False, transfer := False,
                                      origin := Some behavior\<rparr>)]))"

subsection \<open>ActiveEffectRegionBehaviorType\<close>

text \<open>\<open>behavior_uuid\<close> is \<^verbatim>\<open>this.behavior.uuid\<close>, the uuid of the behavior document.\<close>

record active_effect_behavior =
  uuid :: "string option"
  disable :: bool
  behavior_uuid :: string

definition ActiveEffect_onTokenEnter ::
  "'d host \<Rightarrow> active_effect_behavior \<Rightarrow> 'd region_event \<Rightarrow> 'd outcome" where
  "ActiveEffect_onTokenEnter h this event =
     (case event_actor event of
        None \<Rightarrow> no_op
      | Some a \<Rightarrow>
          if \<not> truthy (uuid this) then no_op
          else if \<not> isSelf (user event) then no_op
          else let effect = fromUuid h (uuid this)
               in not_awaited (applyEffectToActor h effect a (behavior_uuid this)))"

definition ActiveEffect_onTokenExit ::
  "active_effect_behavior \<Rightarrow> 'd region_event \<Rightarrow> 'd outcome" where
  "ActiveEffect_onTokenExit this event =
     (case event_actor event of
        None \<Rightarrow> no_op
      | Some a \<Rightarrow>
          if \<not> truthy (uuid this) then no_op
          else if \<not> isSelf (user event) then no_op
          else (case findIndex (\<lambda>e. origin e = Some (behavior_uuid this)) (effects a) of
                  Some existingEffect \<Rightarrow>
                    if disable this
                    then \<lparr>calls = [Update existingEffect
                            \<lparr>patch_duration = None, patch_disabled = Some True\<rparr>],
                          unhandled = []\<rparr>
                    else \<lparr>calls = [Delete existingEffect], unhandled = []\<rparr>
                | None \<Rightarrow> no_op))"

subsection \<open>ActiveEffectEventsRegionBehaviorType\<close>

text \<open>
  The fields that \<^verbatim>\<open>validateJoint\<close> receives, and the behavior, which has them and its
  parent, the behavior document (\<open>parent_uuid\<close> is \<^verbatim>\<open>this.parent.uuid\<close>).
\<close>

record active_effect_events_data =
  effect_action :: "string option"
  effect_uuid :: "string option"
  effect_name :: "string option"

record active_effect_events_behavior = active_effect_events_data +
  parent_uuid :: string

definition validateJoint :: "'x active_effect_events_data_scheme \<Rightarrow> js_error + unit" where
  "validateJoint d =
     (if effect_action d \<in> set [Some ''add'', Some ''resetDuration''] \<and> \<not> truthy (effect_uuid d)
      then Inl (Error (''The uuid field is required for the '' @ js_string (effect_action d)
                        @ '' action''))
      else if effect_action d \<in> set [Some ''enable'', Some ''disable'', Some ''delete'']
              \<and> \<not> truthy (effect_name d)
      then Inl (Error (''The name field is required for the '' @ js_string (effect_action d)
                        @ '' action''))
      else Inr ())"

text \<open>
  The collection's \<^verbatim>\<open>getName(name)\<close> is the first document whose name is \<open>name\<close>.
\<close>

definition getName :: "'d active_effect list \<Rightarrow> string option \<Rightarrow> nat option" where
  "getName es n = findIndex (\<lambda>e. Some (name e) = n) es"

definition onResetDuration ::
  "'d host \<Rightarrow> active_effect_events_behavior \<Rightarrow> 'd actor \<Rightarrow> js_error + 'd effect_call list" where
  "onResetDuration h this a =
     (case fromUuid h (effect_uuid this) of
        None \<Rightarrow> Inl (TypeError ''name'')
      | Some effect \<Rightarrow>
          (case getName (effects a) (Some (name effect)) of
             Some existingEffect \<Rightarrow> Inr [Update existingEffect
                \<lparr>patch_duration = Some (getInitialDuration h), patch_disabled = None\<rparr>]
           | None \<Rightarrow> Inr []))"

definition onEnableDisable ::
  "active_effect_events_behavior \<Rightarrow> 'd actor \<Rightarrow> bool \<Rightarrow> js_error + 'd effect_call list" where
  "onEnableDisable this a disabled' =
     (case getName (effects a) (effect_name this) of
        Some existingEffect \<Rightarrow> Inr [Update existingEffect
           \<lparr>patch_duration = None, patch_disabled = Some disabled'\<rparr>]
      | None \<Rightarrow> Inr [])"

definition ActiveEffectEvents_handleRegionEvent ::
  "'d host \<Rightarrow> active_effect_events_behavior \<Rightarrow> 'd region_event \<Rightarrow> 'd outcome" where
  "ActiveEffectEvents_handleRegionEvent h this event =
     (case event_actor event of
        None \<Rightarrow> no_op
      | Some a \<Rightarrow>
          if \<not> (case activeGM h of None \<Rightarrow> False | Some gm \<Rightarrow> isSelf gm) then no_op
          else if effect_action this = Some ''add'' then
            (let effect = fromUuid h (effect_uuid this)
             in not_awaited (applyEffectToActor h effect a (parent_uuid this)))
          else if effect_action this = Some ''resetDuration'' then
            not_awaited (onResetDuration h this a)
          else if effect_action this = Some ''enable'' then
            not_awaited (onEnableDisable this a False)
          else if effect_action this = Some ''disable'' then
            not_awaited (onEnableDisable this a True)
          else if effect_action this = Some ''delete'' then
            (case getName (effects a) (effect_name this) of
               Some existingEffect \<Rightarrow> \<lparr>calls = [Delete existingEffect], unhandled = []\<rparr>
             | None \<Rightarrow> no_op)
          else no_op)"

subsection \<open>Sample inputs\<close>

text \<open>
  A session used for the concrete instances below: a template effect that is disabled
  and transferred, a host that resolves one uuid to it and whose active GM is the local
  user, and one behavior of each of the two active-effect kinds.
\<close>

definition sample_template :: "nat active_effect" where
  "sample_template =
     \<lparr>name = ''Bless'', origin = None, disabled = True, transfer = True, duration = 0\<rparr>"

definition sample_host :: "nat host" where
  "sample_host =
     \<lparr>fromUuid = (\<lambda>u. if u = Some ''Item.i.ActiveEffect.e'' then Some sample_template else None),
      getInitialDuration = 5,
      activeGM = Some \<lparr>isSelf = True\<rparr>,
      mergeDuration = (\<lambda>old new. new)\<rparr>"

definition sample_behavior :: active_effect_behavior where
  "sample_behavior =
     \<lparr>uuid = Some ''Item.i.ActiveEffect.e'', disable = False, behavior_uuid = ''Region.r.b''\<rparr>"

definition sample_events_behavior :: active_effect_events_behavior where
  "sample_events_behavior =
     \<lparr>effect_action = Some ''add'', effect_uuid = Some ''Item.i.ActiveEffect.e'',
      effect_name = None, parent_uuid = ''Region.r.b''\<rparr>"

text \<open>An effect that the behavior \<^verbatim>\<open>Region.r.b\<close> put on an actor earlier.\<close>

definition sample_applied :: "nat active_effect" where
  "sample_applied =
     \<lparr>name = ''Bless'', origin = Some ''Region.r.b'', disabled = True, transfer = False,
      duration = 1\<rparr>"

text \<open>The same session after the template was deleted: the uuid resolves to nothing.\<close>

definition sample_host_unresolved :: "nat host" where
  "sample_host_unresolved = sample_host\<lparr>fromUuid := \<lambda>u. None\<rparr>"

text \<open>An effect of the actor that no behavior put there.\<close>

definition sample_other :: "nat active_effect" where
  "sample_other =
     \<lparr>name = ''Haste'', origin = None, disabled = False, transfer = False, duration = 2\<rparr>"

section \<open>Properties\<close>

subsection \<open>Finding a document\<close>

lemma findIndex_Some_iff:
  "findIndex P xs = Some i \<longleftrightarrow> i < length xs \<and> P (xs ! i) \<and> (\<forall>j<i. \<not> P (xs ! j))"
proof (induction xs arbitrary: i)
  case Nil
  then show ?case by simp
next
  case (Cons x xs)
  show ?case
  proof (cases "P x")
    case True
    then show ?thesis by (cases i) auto
  next
    case False
    show ?thesis
    proof (cases i)
      case 0
      with False show ?thesis by auto
    next
      case (Suc k)
      have "(\<forall>j<Suc k. \<not> P ((x # xs) ! j)) \<longleftrightarrow> (\<forall>j<k. \<not> P (xs ! j))"
        using False by (auto simp: less_Suc_eq_0_disj)
      with False Suc Cons.IH [of k] show ?thesis by auto
    qed
  qed
qed

lemma findIndex_None_iff: "findIndex P xs = None \<longleftrightarrow> (\<forall>x\<in>set xs. \<not> P x)"
  by (induction xs) auto

lemma findIndex_append_new:
  "findIndex P xs = None \<Longrightarrow> P d \<Longrightarrow> findIndex P (xs @ [d]) = Some (length xs)"
  by (induction xs) (auto split: if_splits)

lemma filter_none: "findIndex P xs = None \<Longrightarrow> filter P xs = []"
  by (simp add: findIndex_None_iff filter_empty_conv)

lemma applyEffectToActor_existing:
  "findIndex (\<lambda>e. origin e = Some b) (effects a) = Some i \<Longrightarrow>
   applyEffectToActor h (Some t) a b =
     Inr [Update i \<lparr>patch_duration = Some (getInitialDuration h), patch_disabled = Some False\<rparr>]"
  by (simp add: applyEffectToActor_def)

lemma applyEffectToActor_new:
  "findIndex (\<lambda>e. origin e = Some b) (effects a) = None \<Longrightarrow>
   applyEffectToActor h (Some t) a b =
     Inr [Create (t\<lparr>disabled := False, transfer := False, origin := Some b\<rparr>)]"
  by (simp add: applyEffectToActor_def)

subsection \<open>Applying an effect twice\<close>

text \<open>The host carries out the calls of the first application before the second.\<close>

lemma applyEffectToActor_twice:
  fixes h :: "'d host" and es :: "'d active_effect list" and t :: "'d active_effect"
    and b :: string
  assumes none: "findIndex (\<lambda>e. origin e = Some b) es = None"
  defines "p \<equiv> \<lparr>patch_duration = Some (getInitialDuration h), patch_disabled = Some False\<rparr>"
  defines "d \<equiv> t\<lparr>disabled := False, transfer := False, origin := Some b\<rparr>"
  shows "applyEffectToActor h (Some t) \<lparr>effects = host_calls h [Create d] es\<rparr> b
           = Inr [Update (length es) p]"
    and "host_calls h [Update (length es) p] (host_calls h [Create d] es)
           = es @ [applyPatch h p d]"
    and "filter (\<lambda>e. origin e = Some b) (es @ [applyPatch h p d]) = [applyPatch h p d]"
proof -
  have od: "origin d = Some b" by (simp add: d_def)
  have es1: "host_calls h [Create d] es = es @ [d]"
    by (simp add: host_calls_def)
  have "findIndex (\<lambda>e. origin e = Some b) (es @ [d]) = Some (length es)"
    using none od by (rule findIndex_append_new)
  then show "applyEffectToActor h (Some t) \<lparr>effects = host_calls h [Create d] es\<rparr> b
           = Inr [Update (length es) p]"
    by (simp add: es1 applyEffectToActor_def p_def)
  show "host_calls h [Update (length es) p] (host_calls h [Create d] es)
           = es @ [applyPatch h p d]"
    by (simp add: es1) (simp add: host_calls_def)
  have "origin (applyPatch h p d) = Some b"
    using od by (simp add: applyPatch_def)
  then show "filter (\<lambda>e. origin e = Some b) (es @ [applyPatch h p d]) = [applyPatch h p d]"
    using filter_none [OF none] by simp
qed

lemma applyEffectToActor_sequence:
  fixes h :: "'d host" and es :: "'d active_effect list"
  assumes f: "\<And>es'. f es' = not_awaited (applyEffectToActor h (Some t) \<lparr>effects = es'\<rparr> b)"
  defines "p \<equiv> \<lparr>patch_duration = Some (getInitialDuration h), patch_disabled = Some False\<rparr>"
  defines "d \<equiv> t\<lparr>disabled := False, transfer := False, origin := Some b\<rparr>"
  shows "(\<forall>i. findIndex (\<lambda>e. origin e = Some b) es = Some i \<longrightarrow>
            f es = \<lparr>calls = [Update i p], unhandled = []\<rparr>)
       \<and> (findIndex (\<lambda>e. origin e = Some b) es = None \<longrightarrow>
             f es = \<lparr>calls = [Create d], unhandled = []\<rparr>
           \<and> f (host_calls h (calls (f es)) es) = \<lparr>calls = [Update (length es) p], unhandled = []\<rparr>
           \<and> host_calls h (calls (f (host_calls h (calls (f es)) es)))
                (host_calls h (calls (f es)) es) = es @ [applyPatch h p d]
           \<and> filter (\<lambda>e. origin e = Some b) (es @ [applyPatch h p d]) = [applyPatch h p d])"
proof (intro conjI allI impI)
  fix i assume "findIndex (\<lambda>e. origin e = Some b) es = Some i"
  then have "applyEffectToActor h (Some t) \<lparr>effects = es\<rparr> b = Inr [Update i p]"
    unfolding p_def by (simp add: applyEffectToActor_existing)
  then show "f es = \<lparr>calls = [Update i p], unhandled = []\<rparr>"
    by (simp add: f not_awaited_def)
next
  assume none: "findIndex (\<lambda>e. origin e = Some b) es = None"
  have "applyEffectToActor h (Some t) \<lparr>effects = es\<rparr> b = Inr [Create d]"
    unfolding d_def using none by (simp add: applyEffectToActor_new)
  then show first: "f es = \<lparr>calls = [Create d], unhandled = []\<rparr>"
    by (simp add: f not_awaited_def)
  note tw = applyEffectToActor_twice [OF none, where h = h and t = t, folded p_def d_def]
  have "applyEffectToActor h (Some t) \<lparr>effects = host_calls h [Create d] es\<rparr> b
          = Inr [Update (length es) p]"
    by (rule tw(1))
  then show second: "f (host_calls h (calls (f es)) es)
          = \<lparr>calls = [Update (length es) p], unhandled = []\<rparr>"
    by (simp add: first) (simp add: f not_awaited_def)
  show "host_calls h (calls (f (host_calls h (calls (f es)) es)))
          (host_calls h (calls (f es)) es) = es @ [applyPatch h p d]"
    by (simp add: second) (simp add: first tw(2))
  show "filter (\<lambda>e. origin e = Some b) (es @ [applyPatch h p d]) = [applyPatch h p d]"
    by (rule tw(3))
qed

lemmas sample_defs = sample_template_def sample_host_def sample_behavior_def
  sample_events_behavior_def sample_applied_def sample_other_def sample_host_unresolved_def

lemmas model_defs = truthy_def js_string_def event_actor_def token_event_def no_op_def
  not_awaited_def applyPatch_def host_calls_def StatusEffect_onTokenEnter_def
  StatusEffect_onTokenExit_def StatusEffectEvents_handleRegionEvent_def
  applyEffectToActor_def ActiveEffect_onTokenEnter_def ActiveEffect_onTokenExit_def
  validateJoint_def getName_def onResetDuration_def onEnableDisable_def
  ActiveEffectEvents_handleRegionEvent_def

subsection \<open>Entering twice\<close>

text \<open>
  C1, under two conditions. Token enter of ActiveEffectRegionBehaviorType, and the \<^verbatim>\<open>add\<close> action
  of ActiveEffectEventsRegionBehaviorType, when the guards pass and the uuid resolves to a
  template: if the actor has an effect whose origin is the behavior's uuid, the handler
  updates the first such effect with \<^verbatim>\<open>disabled: false\<close> and the initial duration, and
  creates nothing; it creates a document only when there is no such effect. Of two enters
  in sequence, the second updates the document the first created, and one document of this
  behavior is on the actor, when the host has carried out the create of the first enter
  before the second enter runs: the second enter is evaluated on the effects that
  \<open>host_calls\<close> gives for the calls of the first.
\<close>

theorem C1_enter_updates_existing_effect:
  fixes h :: "'d host" and es :: "'d active_effect list"
  shows
    "(truthy (uuid this) \<and> isSelf u \<and> fromUuid h (uuid this) = Some t \<longrightarrow>
       (let P = (\<lambda>e. origin e = Some (behavior_uuid this));
            p = \<lparr>patch_duration = Some (getInitialDuration h), patch_disabled = Some False\<rparr>;
            d = t\<lparr>disabled := False, transfer := False, origin := Some (behavior_uuid this)\<rparr>;
            enter = (\<lambda>es'. ActiveEffect_onTokenEnter h this (token_event \<lparr>effects = es'\<rparr> u))
        in (\<forall>i. findIndex P es = Some i \<longrightarrow> enter es = \<lparr>calls = [Update i p], unhandled = []\<rparr>)
         \<and> (findIndex P es = None \<longrightarrow>
               enter es = \<lparr>calls = [Create d], unhandled = []\<rparr>
             \<and> enter (host_calls h (calls (enter es)) es)
                 = \<lparr>calls = [Update (length es) p], unhandled = []\<rparr>
             \<and> host_calls h (calls (enter (host_calls h (calls (enter es)) es)))
                  (host_calls h (calls (enter es)) es) = es @ [applyPatch h p d]
             \<and> filter P (es @ [applyPatch h p d]) = [applyPatch h p d])))
   \<and> (activeGM h = Some gm \<and> isSelf gm \<and> effect_action that = Some ''add''
        \<and> fromUuid h (effect_uuid that) = Some t \<longrightarrow>
       (let P = (\<lambda>e. origin e = Some (parent_uuid that));
            p = \<lparr>patch_duration = Some (getInitialDuration h), patch_disabled = Some False\<rparr>;
            d = t\<lparr>disabled := False, transfer := False, origin := Some (parent_uuid that)\<rparr>;
            add = (\<lambda>es'. ActiveEffectEvents_handleRegionEvent h that
                            (token_event \<lparr>effects = es'\<rparr> u))
        in (\<forall>i. findIndex P es = Some i \<longrightarrow> add es = \<lparr>calls = [Update i p], unhandled = []\<rparr>)
         \<and> (findIndex P es = None \<longrightarrow>
               add es = \<lparr>calls = [Create d], unhandled = []\<rparr>
             \<and> add (host_calls h (calls (add es)) es)
                 = \<lparr>calls = [Update (length es) p], unhandled = []\<rparr>
             \<and> host_calls h (calls (add (host_calls h (calls (add es)) es)))
                  (host_calls h (calls (add es)) es) = es @ [applyPatch h p d]
             \<and> filter P (es @ [applyPatch h p d]) = [applyPatch h p d])))"
proof (intro conjI impI)
  assume g: "truthy (uuid this) \<and> isSelf u \<and> fromUuid h (uuid this) = Some t"
  have "ActiveEffect_onTokenEnter h this (token_event \<lparr>effects = es'\<rparr> u)
          = not_awaited (applyEffectToActor h (Some t) \<lparr>effects = es'\<rparr> (behavior_uuid this))"
    for es'
    using g by (simp add: ActiveEffect_onTokenEnter_def event_actor_def token_event_def)
  from applyEffectToActor_sequence [of _ h t "behavior_uuid this" es, OF this]
  show "let P = (\<lambda>e. origin e = Some (behavior_uuid this));
            p = \<lparr>patch_duration = Some (getInitialDuration h), patch_disabled = Some False\<rparr>;
            d = t\<lparr>disabled := False, transfer := False, origin := Some (behavior_uuid this)\<rparr>;
            enter = (\<lambda>es'. ActiveEffect_onTokenEnter h this (token_event \<lparr>effects = es'\<rparr> u))
        in (\<forall>i. findIndex P es = Some i \<longrightarrow> enter es = \<lparr>calls = [Update i p], unhandled = []\<rparr>)
         \<and> (findIndex P es = None \<longrightarrow>
               enter es = \<lparr>calls = [Create d], unhandled = []\<rparr>
             \<and> enter (host_calls h (calls (enter es)) es)
                 = \<lparr>calls = [Update (length es) p], unhandled = []\<rparr>
             \<and> host_calls h (calls (enter (host_calls h (calls (enter es)) es)))
                  (host_calls h (calls (enter es)) es) = es @ [applyPatch h p d]
             \<and> filter P (es @ [applyPatch h p d]) = [applyPatch h p d])"
    unfolding Let_def .
next
  assume g: "activeGM h = Some gm \<and> isSelf gm \<and> effect_action that = Some ''add''
        \<and> fromUuid h (effect_uuid that) = Some t"
  have "ActiveEffectEvents_handleRegionEvent h that (token_event \<lparr>effects = es'\<rparr> u)
          = not_awaited (applyEffectToActor h (Some t) \<lparr>effects = es'\<rparr> (parent_uuid that))"
    for es'
    using g by (simp add: ActiveEffectEvents_handleRegionEvent_def event_actor_def token_event_def)
  from applyEffectToActor_sequence [of _ h t "parent_uuid that" es, OF this]
  show "let P = (\<lambda>e. origin e = Some (parent_uuid that));
            p = \<lparr>patch_duration = Some (getInitialDuration h), patch_disabled = Some False\<rparr>;
            d = t\<lparr>disabled := False, transfer := False, origin := Some (parent_uuid that)\<rparr>;
            add = (\<lambda>es'. ActiveEffectEvents_handleRegionEvent h that
                            (token_event \<lparr>effects = es'\<rparr> u))
        in (\<forall>i. findIndex P es = Some i \<longrightarrow> add es = \<lparr>calls = [Update i p], unhandled = []\<rparr>)
         \<and> (findIndex P es = None \<longrightarrow>
               add es = \<lparr>calls = [Create d], unhandled = []\<rparr>
             \<and> add (host_calls h (calls (add es)) es)
                 = \<lparr>calls = [Update (length es) p], unhandled = []\<rparr>
             \<and> host_calls h (calls (add (host_calls h (calls (add es)) es)))
                  (host_calls h (calls (add es)) es) = es @ [applyPatch h p d]
             \<and> filter P (es @ [applyPatch h p d]) = [applyPatch h p d])"
    unfolding Let_def .
qed

theorem C1_witness:
  "truthy (uuid sample_behavior) \<and> fromUuid sample_host (uuid sample_behavior) = Some sample_template
   \<and> findIndex (\<lambda>e. origin e = Some (behavior_uuid sample_behavior)) [sample_other] = None
   \<and> ActiveEffect_onTokenEnter sample_host sample_behavior
        (token_event \<lparr>effects = [sample_other]\<rparr> \<lparr>isSelf = True\<rparr>)
      = \<lparr>calls = [Create \<lparr>name = ''Bless'', origin = Some ''Region.r.b'', disabled = False,
                            transfer = False, duration = 0\<rparr>], unhandled = []\<rparr>
   \<and> ActiveEffect_onTokenEnter sample_host sample_behavior
        (token_event \<lparr>effects = [sample_other, \<lparr>name = ''Bless'', origin = Some ''Region.r.b'',
           disabled = False, transfer = False, duration = 0\<rparr>]\<rparr> \<lparr>isSelf = True\<rparr>)
      = \<lparr>calls = [Update 1 \<lparr>patch_duration = Some 5, patch_disabled = Some False\<rparr>],
         unhandled = []\<rparr>
   \<and> findIndex (\<lambda>e. origin e = Some (behavior_uuid sample_behavior))
         [sample_other, sample_applied] = Some 1
   \<and> ActiveEffect_onTokenEnter sample_host sample_behavior
        (token_event \<lparr>effects = [sample_other, sample_applied]\<rparr> \<lparr>isSelf = True\<rparr>)
      = \<lparr>calls = [Update 1 \<lparr>patch_duration = Some 5, patch_disabled = Some False\<rparr>],
         unhandled = []\<rparr>
   \<and> activeGM sample_host = Some \<lparr>isSelf = True\<rparr>
   \<and> effect_action sample_events_behavior = Some ''add''
   \<and> ActiveEffectEvents_handleRegionEvent sample_host sample_events_behavior
        (token_event \<lparr>effects = [sample_other, sample_applied]\<rparr> \<lparr>isSelf = False\<rparr>)
      = \<lparr>calls = [Update 1 \<lparr>patch_duration = Some 5, patch_disabled = Some False\<rparr>],
         unhandled = []\<rparr>"
  using C1_enter_updates_existing_effect
          [of sample_behavior "\<lparr>isSelf = True\<rparr>" sample_host sample_template "[sample_other]"
              "\<lparr>isSelf = True\<rparr>" sample_events_behavior]
        C1_enter_updates_existing_effect
          [of sample_behavior "\<lparr>isSelf = True\<rparr>" sample_host sample_template
              "[sample_other, sample_applied]" "\<lparr>isSelf = True\<rparr>" sample_events_behavior]
  by (simp add: Let_def sample_defs model_defs)

text \<open>
  Without the two conditions the statement fails. The handler does not await the create,
  so a second enter can run on the effects as they were: on an actor without an effect of
  the behavior, both enters request a create, and the host then has two documents of the
  behavior's origin on the actor. And when the uuid resolves to nothing, an actor that
  has an effect of the behavior gets no update of it.
\<close>

theorem C1_counterexample:
  "calls (ActiveEffect_onTokenEnter sample_host sample_behavior
            (token_event \<lparr>effects = [sample_other]\<rparr> \<lparr>isSelf = True\<rparr>))
     = [Create \<lparr>name = ''Bless'', origin = Some ''Region.r.b'', disabled = False,
                transfer = False, duration = 0\<rparr>]
   \<and> map origin
        (host_calls sample_host
           (calls (ActiveEffect_onTokenEnter sample_host sample_behavior
                     (token_event \<lparr>effects = [sample_other]\<rparr> \<lparr>isSelf = True\<rparr>))
            @ calls (ActiveEffect_onTokenEnter sample_host sample_behavior
                       (token_event \<lparr>effects = [sample_other]\<rparr> \<lparr>isSelf = True\<rparr>)))
           [sample_other])
     = [None, Some ''Region.r.b'', Some ''Region.r.b'']
   \<and> map origin
        (host_calls sample_host
           (calls (ActiveEffectEvents_handleRegionEvent sample_host sample_events_behavior
                     (token_event \<lparr>effects = [sample_other]\<rparr> \<lparr>isSelf = True\<rparr>))
            @ calls (ActiveEffectEvents_handleRegionEvent sample_host sample_events_behavior
                       (token_event \<lparr>effects = [sample_other]\<rparr> \<lparr>isSelf = True\<rparr>)))
           [sample_other])
     = [None, Some ''Region.r.b'', Some ''Region.r.b'']
   \<and> origin sample_applied = Some (behavior_uuid sample_behavior)
   \<and> calls (ActiveEffect_onTokenEnter sample_host_unresolved sample_behavior
               (token_event \<lparr>effects = [sample_other, sample_applied]\<rparr> \<lparr>isSelf = True\<rparr>))
     = []"
  by (simp add: sample_defs model_defs)

subsection \<open>A template that does not resolve\<close>

text \<open>
  With no document for the template, \<^verbatim>\<open>applyEffectToActor\<close> makes no call and throws,
  whether or not the actor has an effect of the behavior.
\<close>

lemma applyEffectToActor_unresolved:
  "\<exists>p. applyEffectToActor h None a b = Inl (TypeError p)"
  by (simp add: applyEffectToActor_def split: option.splits)

text \<open>
  C2. A behavior whose uuid resolves to no document (\<^verbatim>\<open>fromUuid\<close> yields \<^verbatim>\<open>null\<close>), with
  the guards passing. Token enter, the \<^verbatim>\<open>add\<close> action and the \<^verbatim>\<open>resetDuration\<close> action
  make no document call, and each throws a TypeError inside the async function it does not
  await: reading \<^verbatim>\<open>toObject\<close>, \<^verbatim>\<open>constructor\<close> or \<^verbatim>\<open>name\<close> of \<^verbatim>\<open>null\<close>. The
  action is not performed, but not silently.
\<close>

theorem C2_unresolved_template_throws:
  "ActiveEffect_onTokenEnter (sample_host\<lparr>fromUuid := \<lambda>u. None\<rparr>) sample_behavior
      (token_event \<lparr>effects = [sample_other]\<rparr> \<lparr>isSelf = True\<rparr>)
     = \<lparr>calls = [], unhandled = [TypeError ''toObject'']\<rparr>
   \<and> ActiveEffect_onTokenEnter (sample_host\<lparr>fromUuid := \<lambda>u. None\<rparr>) sample_behavior
      (token_event \<lparr>effects = [sample_other, sample_applied]\<rparr> \<lparr>isSelf = True\<rparr>)
     = \<lparr>calls = [], unhandled = [TypeError ''constructor'']\<rparr>
   \<and> ActiveEffectEvents_handleRegionEvent (sample_host\<lparr>fromUuid := \<lambda>u. None\<rparr>)
      sample_events_behavior (token_event \<lparr>effects = [sample_other]\<rparr> \<lparr>isSelf = True\<rparr>)
     = \<lparr>calls = [], unhandled = [TypeError ''toObject'']\<rparr>
   \<and> ActiveEffectEvents_handleRegionEvent (sample_host\<lparr>fromUuid := \<lambda>u. None\<rparr>)
      (sample_events_behavior\<lparr>effect_action := Some ''resetDuration''\<rparr>)
      (token_event \<lparr>effects = [sample_other]\<rparr> \<lparr>isSelf = True\<rparr>)
     = \<lparr>calls = [], unhandled = [TypeError ''name'']\<rparr>"
  by (simp add: sample_defs model_defs)

subsection \<open>Joint validation\<close>

text \<open>
  C3. \<^verbatim>\<open>validateJoint\<close> throws exactly when the action is \<^verbatim>\<open>add\<close> or \<^verbatim>\<open>resetDuration\<close>
  and the uuid is missing (null, undefined or empty), or the action is \<^verbatim>\<open>enable\<close>,
  \<^verbatim>\<open>disable\<close> or \<^verbatim>\<open>delete\<close> and the name is missing. The error's message names the
  field and the action. With action \<^verbatim>\<open>add\<close> and a uuid, or action \<^verbatim>\<open>delete\<close> and a
  name, it returns without throwing.
\<close>

theorem C3_validateJoint_rejects:
  "((\<exists>e. validateJoint d = Inl e) \<longleftrightarrow>
       (effect_action d \<in> {Some ''add'', Some ''resetDuration''} \<and> \<not> truthy (effect_uuid d))
     \<or> (effect_action d \<in> {Some ''enable'', Some ''disable'', Some ''delete''}
          \<and> \<not> truthy (effect_name d)))
   \<and> (\<forall>a. effect_action d = Some a \<and> a \<in> {''add'', ''resetDuration''} \<and> \<not> truthy (effect_uuid d)
          \<longrightarrow> validateJoint d = Inl (Error (''The uuid field is required for the '' @ a @ '' action'')))
   \<and> (\<forall>a. effect_action d = Some a \<and> a \<in> {''enable'', ''disable'', ''delete''}
            \<and> \<not> truthy (effect_name d)
          \<longrightarrow> validateJoint d = Inl (Error (''The name field is required for the '' @ a @ '' action'')))
   \<and> (effect_action d = Some ''add'' \<and> truthy (effect_uuid d) \<longrightarrow> validateJoint d = Inr ())
   \<and> (effect_action d = Some ''delete'' \<and> truthy (effect_name d) \<longrightarrow> validateJoint d = Inr ())"
proof (intro conjI allI impI)
  show "(\<exists>e. validateJoint d = Inl e) \<longleftrightarrow>
       (effect_action d \<in> {Some ''add'', Some ''resetDuration''} \<and> \<not> truthy (effect_uuid d))
     \<or> (effect_action d \<in> {Some ''enable'', Some ''disable'', Some ''delete''}
          \<and> \<not> truthy (effect_name d))"
    by (auto simp: validateJoint_def)
next
  fix a
  assume "effect_action d = Some a \<and> a \<in> {''add'', ''resetDuration''} \<and> \<not> truthy (effect_uuid d)"
  then show "validateJoint d = Inl (Error (''The uuid field is required for the '' @ a @ '' action''))"
    by (auto simp: validateJoint_def js_string_def)
next
  fix a
  assume "effect_action d = Some a \<and> a \<in> {''enable'', ''disable'', ''delete''}
            \<and> \<not> truthy (effect_name d)"
  then show "validateJoint d = Inl (Error (''The name field is required for the '' @ a @ '' action''))"
    by (auto simp: validateJoint_def js_string_def)
next
  assume "effect_action d = Some ''add'' \<and> truthy (effect_uuid d)"
  then show "validateJoint d = Inr ()"
    by (simp add: validateJoint_def)
next
  assume "effect_action d = Some ''delete'' \<and> truthy (effect_name d)"
  then show "validateJoint d = Inr ()"
    by (simp add: validateJoint_def)
qed

theorem C3_witness:
  "validateJoint \<lparr>effect_action = Some ''add'', effect_uuid = None, effect_name = None\<rparr>
     = Inl (Error ''The uuid field is required for the add action'')
   \<and> validateJoint \<lparr>effect_action = Some ''enable'', effect_uuid = None, effect_name = None\<rparr>
     = Inl (Error ''The name field is required for the enable action'')
   \<and> validateJoint \<lparr>effect_action = Some ''add'', effect_uuid = Some ''Item.i.ActiveEffect.e'',
        effect_name = None\<rparr> = Inr ()
   \<and> validateJoint \<lparr>effect_action = Some ''delete'', effect_uuid = None,
        effect_name = Some ''Bless''\<rparr> = Inr ()"
  using C3_validateJoint_rejects
          [of "\<lparr>effect_action = Some ''add'', effect_uuid = None, effect_name = None\<rparr>"]
        C3_validateJoint_rejects
          [of "\<lparr>effect_action = Some ''enable'', effect_uuid = None, effect_name = None\<rparr>"]
        C3_validateJoint_rejects
          [of "\<lparr>effect_action = Some ''add'', effect_uuid = Some ''Item.i.ActiveEffect.e'',
                effect_name = None\<rparr>"]
        C3_validateJoint_rejects
          [of "\<lparr>effect_action = Some ''delete'', effect_uuid = None,
                effect_name = Some ''Bless''\<rparr>"]
  by (simp add: truthy_def)

subsection \<open>Leaving the region\<close>

text \<open>
  C4. Token exit of ActiveEffectRegionBehaviorType, when the guards pass and the actor
  has an effect whose origin is the behavior's uuid: with \<^verbatim>\<open>disable\<close> set, the handler
  only updates the first such effect with \<^verbatim>\<open>disabled: true\<close> and the document stays on
  the actor; with \<^verbatim>\<open>disable\<close> not set, it deletes that document.
\<close>

theorem C4_exit_disables_or_deletes:
  fixes h :: "'d host"
  assumes actor: "event_actor ev = Some a"
      and uuid: "truthy (uuid this)"
      and self: "isSelf (user ev)"
      and found: "findIndex (\<lambda>e. origin e = Some (behavior_uuid this)) (effects a) = Some i"
  shows "i < length (effects a) \<and> origin (effects a ! i) = Some (behavior_uuid this)
       \<and> (disable this \<longrightarrow>
            ActiveEffect_onTokenExit this ev
              = \<lparr>calls = [Update i \<lparr>patch_duration = None, patch_disabled = Some True\<rparr>],
                 unhandled = []\<rparr>
          \<and> host_calls h (calls (ActiveEffect_onTokenExit this ev)) (effects a)
              = (effects a)[i := (effects a ! i)\<lparr>disabled := True\<rparr>])
       \<and> (\<not> disable this \<longrightarrow>
            ActiveEffect_onTokenExit this ev = \<lparr>calls = [Delete i], unhandled = []\<rparr>
          \<and> host_calls h (calls (ActiveEffect_onTokenExit this ev)) (effects a)
              = take i (effects a) @ drop (Suc i) (effects a)
          \<and> length (host_calls h (calls (ActiveEffect_onTokenExit this ev)) (effects a))
              = length (effects a) - 1)"
proof -
  from found have i: "i < length (effects a)"
    and o: "origin (effects a ! i) = Some (behavior_uuid this)"
    by (simp_all add: findIndex_Some_iff)
  have exit: "ActiveEffect_onTokenExit this ev =
      (if disable this
       then \<lparr>calls = [Update i \<lparr>patch_duration = None, patch_disabled = Some True\<rparr>],
             unhandled = []\<rparr>
       else \<lparr>calls = [Delete i], unhandled = []\<rparr>)"
    using actor uuid self found by (simp add: ActiveEffect_onTokenExit_def)
  have upd: "applyPatch h \<lparr>patch_duration = None, patch_disabled = Some True\<rparr> e
               = e\<lparr>disabled := True\<rparr>" for e :: "'d active_effect"
    by (simp add: applyPatch_def)
  show ?thesis
    using i o by (simp add: exit host_calls_def upd)
qed

theorem C4_witness:
  "ActiveEffect_onTokenExit (sample_behavior\<lparr>disable := True\<rparr>)
      (token_event \<lparr>effects = [sample_other, sample_applied\<lparr>disabled := False\<rparr>]\<rparr> \<lparr>isSelf = True\<rparr>)
     = \<lparr>calls = [Update 1 \<lparr>patch_duration = None, patch_disabled = Some True\<rparr>], unhandled = []\<rparr>
   \<and> host_calls sample_host [Update 1 \<lparr>patch_duration = None, patch_disabled = Some True\<rparr>]
        [sample_other, sample_applied\<lparr>disabled := False\<rparr>] = [sample_other, sample_applied]
   \<and> ActiveEffect_onTokenExit sample_behavior
      (token_event \<lparr>effects = [sample_other, sample_applied]\<rparr> \<lparr>isSelf = True\<rparr>)
     = \<lparr>calls = [Delete 1], unhandled = []\<rparr>
   \<and> host_calls sample_host [Delete 1] [sample_other, sample_applied] = [sample_other]"
  using C4_exit_disables_or_deletes
          [of "token_event \<lparr>effects = [sample_other, sample_applied\<lparr>disabled := False\<rparr>]\<rparr>
                 \<lparr>isSelf = True\<rparr>"
              "\<lparr>effects = [sample_other, sample_applied\<lparr>disabled := False\<rparr>]\<rparr>"
              "sample_behavior\<lparr>disable := True\<rparr>" 1 sample_host]
        C4_exit_disables_or_deletes
          [of "token_event \<lparr>effects = [sample_other, sample_applied]\<rparr> \<lparr>isSelf = True\<rparr>"
              "\<lparr>effects = [sample_other, sample_applied]\<rparr>" sample_behavior 1 sample_host]
  by (simp add: sample_defs model_defs)

subsection \<open>The active GM\<close>

text \<open>
  C5. When there is no active GM, or the active GM is not the local user, the event
  handler of ActiveEffectEventsRegionBehaviorType makes no document call, whatever the
  action, the event and the behavior's fields are.
\<close>

theorem C5_only_active_gm_mutates:
  assumes "activeGM h = None \<or> (\<exists>gm. activeGM h = Some gm \<and> \<not> isSelf gm)"
  shows "ActiveEffectEvents_handleRegionEvent h this ev = \<lparr>calls = [], unhandled = []\<rparr>"
  using assms
  by (auto simp: ActiveEffectEvents_handleRegionEvent_def no_op_def split: option.splits)

theorem C5_witness:
  "activeGM (sample_host\<lparr>activeGM := Some \<lparr>isSelf = False\<rparr>\<rparr>) = Some \<lparr>isSelf = False\<rparr>
   \<and> ActiveEffectEvents_handleRegionEvent (sample_host\<lparr>activeGM := Some \<lparr>isSelf = False\<rparr>\<rparr>)
        sample_events_behavior (token_event \<lparr>effects = [sample_other]\<rparr> \<lparr>isSelf = True\<rparr>)
       = \<lparr>calls = [], unhandled = []\<rparr>
   \<and> activeGM (sample_host\<lparr>activeGM := None\<rparr>) = None
   \<and> ActiveEffectEvents_handleRegionEvent (sample_host\<lparr>activeGM := None\<rparr>)
        sample_events_behavior (token_event \<lparr>effects = [sample_other]\<rparr> \<lparr>isSelf = True\<rparr>)
       = \<lparr>calls = [], unhandled = []\<rparr>
   \<and> ActiveEffectEvents_handleRegionEvent sample_host
        sample_events_behavior (token_event \<lparr>effects = [sample_other]\<rparr> \<lparr>isSelf = True\<rparr>)
       \<noteq> \<lparr>calls = [], unhandled = []\<rparr>"
  using C5_only_active_gm_mutates
          [of "sample_host\<lparr>activeGM := Some \<lparr>isSelf = False\<rparr>\<rparr>" sample_events_behavior
              "token_event \<lparr>effects = [sample_other]\<rparr> \<lparr>isSelf = True\<rparr>"]
        C5_only_active_gm_mutates
          [of "sample_host\<lparr>activeGM := None\<rparr>" sample_events_behavior
              "token_event \<lparr>effects = [sample_other]\<rparr> \<lparr>isSelf = True\<rparr>"]
  by (simp add: sample_defs model_defs)

subsection \<open>Status effects\<close>

text \<open>
  C6. StatusEffectRegionBehaviorType: when the event has an actor, the status id is set
  and the triggering user is the local one, token enter calls \<^verbatim>\<open>toggleStatusEffect\<close>
  with \<^verbatim>\<open>active: true\<close> and the behavior's overlay flag, and token exit calls it with
  \<^verbatim>\<open>active: false\<close> and no overlay option. In every other case both handlers make no
  call.
\<close>

theorem C6_status_effect_enter_exit:
  "StatusEffect_onTokenEnter this ev =
     (if event_actor ev \<noteq> None \<and> truthy (statusId this) \<and> isSelf (user ev)
      then [ToggleStatusEffect (statusId this) (Some True) (Some (overlay this))]
      else [])
   \<and> StatusEffect_onTokenExit this ev =
     (if event_actor ev \<noteq> None \<and> truthy (statusId this) \<and> isSelf (user ev)
      then [ToggleStatusEffect (statusId this) (Some False) None]
      else [])"
  by (simp add: StatusEffect_onTokenEnter_def StatusEffect_onTokenExit_def)

theorem C6_witness:
  "StatusEffect_onTokenEnter \<lparr>statusId = Some ''prone'', overlay = True\<rparr>
      (token_event \<lparr>effects = [sample_other]\<rparr> \<lparr>isSelf = True\<rparr>)
     = [ToggleStatusEffect (Some ''prone'') (Some True) (Some True)]
   \<and> StatusEffect_onTokenExit \<lparr>statusId = Some ''prone'', overlay = True\<rparr>
      (token_event \<lparr>effects = [sample_other]\<rparr> \<lparr>isSelf = True\<rparr>)
     = [ToggleStatusEffect (Some ''prone'') (Some False) None]
   \<and> StatusEffect_onTokenEnter \<lparr>statusId = Some ''prone'', overlay = True\<rparr>
      (token_event \<lparr>effects = [sample_other]\<rparr> \<lparr>isSelf = False\<rparr>) = []
   \<and> StatusEffect_onTokenExit \<lparr>statusId = None, overlay = True\<rparr>
      (token_event \<lparr>effects = [sample_other]\<rparr> \<lparr>isSelf = True\<rparr>) = []"
  using C6_status_effect_enter_exit
          [of "\<lparr>statusId = Some ''prone'', overlay = True\<rparr>"
              "token_event \<lparr>effects = [sample_other]\<rparr> \<lparr>isSelf = True\<rparr>"]
        C6_status_effect_enter_exit
          [of "\<lparr>statusId = Some ''prone'', overlay = True\<rparr>"
              "token_event \<lparr>effects = [sample_other]\<rparr> \<lparr>isSelf = False\<rparr>"]
        C6_status_effect_enter_exit
          [of "\<lparr>statusId = None, overlay = True\<rparr>"
              "token_event \<lparr>effects = [sample_other]\<rparr> \<lparr>isSelf = True\<rparr>"]
  by (simp add: sample_defs model_defs)

text \<open>
  C7. The event handler of StatusEffectEventsRegionBehaviorType, when the event has an
  actor and the status id is set, calls \<^verbatim>\<open>toggleStatusEffect\<close> with \<^verbatim>\<open>active\<close> being
  \<^verbatim>\<open>true\<close> for the action \<^verbatim>\<open>apply\<close>, \<^verbatim>\<open>false\<close> for \<^verbatim>\<open>remove\<close> and \<^verbatim>\<open>undefined\<close> for
  \<^verbatim>\<open>toggle\<close>. It does not look at the triggering user: the result is the same for
  every user of the event.
\<close>

theorem C7_status_events_action:
  "(event_actor ev \<noteq> None \<and> truthy (statusId this) \<longrightarrow>
      (status_action this = ''apply'' \<longrightarrow>
         StatusEffectEvents_handleRegionEvent this ev
           = [ToggleStatusEffect (statusId this) (Some True) (Some (overlay this))])
    \<and> (status_action this = ''remove'' \<longrightarrow>
         StatusEffectEvents_handleRegionEvent this ev
           = [ToggleStatusEffect (statusId this) (Some False) (Some (overlay this))])
    \<and> (status_action this = ''toggle'' \<longrightarrow>
         StatusEffectEvents_handleRegionEvent this ev
           = [ToggleStatusEffect (statusId this) None (Some (overlay this))]))
   \<and> StatusEffectEvents_handleRegionEvent this (ev\<lparr>user := u\<rparr>)
       = StatusEffectEvents_handleRegionEvent this ev"
  by (simp add: StatusEffectEvents_handleRegionEvent_def event_actor_def)

theorem C7_witness:
  "StatusEffectEvents_handleRegionEvent
      \<lparr>statusId = Some ''prone'', overlay = False, status_action = ''apply''\<rparr>
      (token_event \<lparr>effects = [sample_other]\<rparr> \<lparr>isSelf = False\<rparr>)
     = [ToggleStatusEffect (Some ''prone'') (Some True) (Some False)]
   \<and> StatusEffectEvents_handleRegionEvent
      \<lparr>statusId = Some ''prone'', overlay = False, status_action = ''remove''\<rparr>
      (token_event \<lparr>effects = [sample_other]\<rparr> \<lparr>isSelf = False\<rparr>)
     = [ToggleStatusEffect (Some ''prone'') (Some False) (Some False)]
   \<and> StatusEffectEvents_handleRegionEvent
      \<lparr>statusId = Some ''prone'', overlay = False, status_action = ''toggle''\<rparr>
      (token_event \<lparr>effects = [sample_other]\<rparr> \<lparr>isSelf = False\<rparr>)
     = [ToggleStatusEffect (Some ''prone'') None (Some False)]"
  using C7_status_events_action
          [of "token_event \<lparr>effects = [sample_other]\<rparr> \<lparr>isSelf = False\<rparr>"
              "\<lparr>statusId = Some ''prone'', overlay = False, status_action = ''apply''\<rparr>"]
        C7_status_events_action
          [of "token_event \<lparr>effects = [sample_other]\<rparr> \<lparr>isSelf = False\<rparr>"
              "\<lparr>statusId = Some ''prone'', overlay = False, status_action = ''remove''\<rparr>"]
        C7_status_events_action
          [of "token_event \<lparr>effects = [sample_other]\<rparr> \<lparr>isSelf = False\<rparr>"
              "\<lparr>statusId = Some ''prone'', overlay = False, status_action = ''toggle''\<rparr>"]
  by (simp add: sample_defs model_defs)

subsection \<open>An event without an actor\<close>

text \<open>
  C8. With no actor on the event's token (or no token, or no event data), every handler
  of the four behaviors makes no call and throws nothing.
\<close>

theorem C8_missing_actor_is_no_op:
  fixes ev :: "'d region_event" and h :: "'d host"
  assumes "event_actor ev = None"
  shows "StatusEffect_onTokenEnter st ev = []
       \<and> StatusEffect_onTokenExit st ev = []
       \<and> StatusEffectEvents_handleRegionEvent ste ev = []
       \<and> ActiveEffect_onTokenEnter h ae ev = \<lparr>calls = [], unhandled = []\<rparr>
       \<and> ActiveEffect_onTokenExit ae ev = \<lparr>calls = [], unhandled = []\<rparr>
       \<and> ActiveEffectEvents_handleRegionEvent h aee ev = \<lparr>calls = [], unhandled = []\<rparr>"
  using assms
  by (simp add: StatusEffect_onTokenEnter_def StatusEffect_onTokenExit_def
        StatusEffectEvents_handleRegionEvent_def ActiveEffect_onTokenEnter_def
        ActiveEffect_onTokenExit_def ActiveEffectEvents_handleRegionEvent_def no_op_def)

theorem C8_witness:
  "event_actor \<lparr>data = Some \<lparr>token = Some \<lparr>actor = None\<rparr>\<rparr>, user = \<lparr>isSelf = True\<rparr>\<rparr> = None
   \<and> StatusEffect_onTokenEnter \<lparr>statusId = Some ''prone'', overlay = True\<rparr>
        \<lparr>data = Some \<lparr>token = Some \<lparr>actor = None\<rparr>\<rparr>, user = \<lparr>isSelf = True\<rparr>\<rparr> = []
   \<and> StatusEffect_onTokenExit \<lparr>statusId = Some ''prone'', overlay = True\<rparr>
        \<lparr>data = Some \<lparr>token = Some \<lparr>actor = None\<rparr>\<rparr>, user = \<lparr>isSelf = True\<rparr>\<rparr> = []
   \<and> StatusEffectEvents_handleRegionEvent
        \<lparr>statusId = Some ''prone'', overlay = True, status_action = ''apply''\<rparr>
        \<lparr>data = Some \<lparr>token = Some \<lparr>actor = None\<rparr>\<rparr>, user = \<lparr>isSelf = True\<rparr>\<rparr> = []
   \<and> ActiveEffect_onTokenEnter sample_host sample_behavior
        \<lparr>data = Some \<lparr>token = Some \<lparr>actor = None\<rparr>\<rparr>, user = \<lparr>isSelf = True\<rparr>\<rparr>
       = \<lparr>calls = [], unhandled = []\<rparr>
   \<and> ActiveEffect_onTokenExit sample_behavior
        \<lparr>data = Some \<lparr>token = Some \<lparr>actor = None\<rparr>\<rparr>, user = \<lparr>isSelf = True\<rparr>\<rparr>
       = \<lparr>calls = [], unhandled = []\<rparr>
   \<and> ActiveEffectEvents_handleRegionEvent sample_host sample_events_behavior
        \<lparr>data = Some \<lparr>token = Some \<lparr>actor = None\<rparr>\<rparr>, user = \<lparr>isSelf = True\<rparr>\<rparr>
       = \<lparr>calls = [], unhandled = []\<rparr>
   \<and> event_actor \<lparr>data = None, user = \<lparr>isSelf = True\<rparr>\<rparr> = (None :: nat actor option)
   \<and> ActiveEffect_onTokenEnter sample_host sample_behavior \<lparr>data = None, user = \<lparr>isSelf = True\<rparr>\<rparr>
       = \<lparr>calls = [], unhandled = []\<rparr>"
  using C8_missing_actor_is_no_op
          [of "\<lparr>data = Some \<lparr>token = Some \<lparr>actor = None\<rparr>\<rparr>, user = \<lparr>isSelf = True\<rparr>\<rparr>"
              "\<lparr>statusId = Some ''prone'', overlay = True\<rparr>"
              "\<lparr>statusId = Some ''prone'', overlay = True, status_action = ''apply''\<rparr>"
              sample_host sample_behavior sample_events_behavior]
        C8_missing_actor_is_no_op
          [of "\<lparr>data = None, user = \<lparr>isSelf = True\<rparr>\<rparr>"
              "\<lparr>statusId = Some ''prone'', overlay = True\<rparr>"
              "\<lparr>statusId = Some ''prone'', overlay = True, status_action = ''apply''\<rparr>"
              sample_host sample_behavior sample_events_behavior]
  by (simp add: sample_defs model_defs)

subsection \<open>Resetting the duration\<close>

text \<open>
  C9. The \<^verbatim>\<open>resetDuration\<close> action, when the guards pass and the uuid resolves to a
  template: the handler looks for the first effect of the actor whose name is the
  template's name. If there is one, it updates that effect with the initial duration
  only, so the host changes nothing but its duration; if there is none, it makes no call
  and throws nothing. The behavior's own name field and its uuid as an origin play no
  part: changing them does not change the result.
\<close>

theorem C9_reset_duration_by_template_name:
  fixes h :: "'d host"
  assumes actor: "event_actor ev = Some a"
      and gm: "activeGM h = Some gm" "isSelf gm"
      and action: "effect_action this = Some ''resetDuration''"
      and template: "fromUuid h (effect_uuid this) = Some t"
  shows "(\<forall>i. findIndex (\<lambda>e. name e = name t) (effects a) = Some i \<longrightarrow>
            ActiveEffectEvents_handleRegionEvent h this ev
              = \<lparr>calls = [Update i \<lparr>patch_duration = Some (getInitialDuration h),
                                     patch_disabled = None\<rparr>], unhandled = []\<rparr>
          \<and> host_calls h (calls (ActiveEffectEvents_handleRegionEvent h this ev)) (effects a)
              = (effects a)[i := (effects a ! i)
                  \<lparr>duration := mergeDuration h (duration (effects a ! i)) (getInitialDuration h)\<rparr>])
       \<and> (findIndex (\<lambda>e. name e = name t) (effects a) = None \<longrightarrow>
            ActiveEffectEvents_handleRegionEvent h this ev = \<lparr>calls = [], unhandled = []\<rparr>)
       \<and> ActiveEffectEvents_handleRegionEvent h (this\<lparr>effect_name := n, parent_uuid := b\<rparr>) ev
            = ActiveEffectEvents_handleRegionEvent h this ev"
proof (intro conjI allI impI)
  have handler: "ActiveEffectEvents_handleRegionEvent h this' ev =
      (case findIndex (\<lambda>e. name e = name t) (effects a) of
         Some i \<Rightarrow> \<lparr>calls = [Update i \<lparr>patch_duration = Some (getInitialDuration h),
                                        patch_disabled = None\<rparr>], unhandled = []\<rparr>
       | None \<Rightarrow> \<lparr>calls = [], unhandled = []\<rparr>)"
    if "effect_action this' = Some ''resetDuration''" "effect_uuid this' = effect_uuid this"
    for this'
    using that actor gm template
    by (simp add: ActiveEffectEvents_handleRegionEvent_def onResetDuration_def getName_def
          not_awaited_def split: option.splits)
  {
    fix i assume found: "findIndex (\<lambda>e. name e = name t) (effects a) = Some i"
    then have i: "i < length (effects a)"
      by (simp add: findIndex_Some_iff)
    show call: "ActiveEffectEvents_handleRegionEvent h this ev
              = \<lparr>calls = [Update i \<lparr>patch_duration = Some (getInitialDuration h),
                                     patch_disabled = None\<rparr>], unhandled = []\<rparr>"
      using found action by (simp add: handler)
    have "applyPatch h \<lparr>patch_duration = Some (getInitialDuration h), patch_disabled = None\<rparr> e
            = e\<lparr>duration := mergeDuration h (duration e) (getInitialDuration h)\<rparr>"
      for e :: "'d active_effect"
      by (simp add: applyPatch_def)
    then show "host_calls h (calls (ActiveEffectEvents_handleRegionEvent h this ev)) (effects a)
              = (effects a)[i := (effects a ! i)
                  \<lparr>duration := mergeDuration h (duration (effects a ! i)) (getInitialDuration h)\<rparr>]"
      using i by (simp add: call host_calls_def)
  }
  {
    assume "findIndex (\<lambda>e. name e = name t) (effects a) = None"
    then show "ActiveEffectEvents_handleRegionEvent h this ev = \<lparr>calls = [], unhandled = []\<rparr>"
      using action by (simp add: handler)
  }
  show "ActiveEffectEvents_handleRegionEvent h (this\<lparr>effect_name := n, parent_uuid := b\<rparr>) ev
            = ActiveEffectEvents_handleRegionEvent h this ev"
    using action by (simp add: handler)
qed

theorem C9_witness:
  "ActiveEffectEvents_handleRegionEvent sample_host
      \<lparr>effect_action = Some ''resetDuration'', effect_uuid = Some ''Item.i.ActiveEffect.e'',
       effect_name = Some ''Haste'', parent_uuid = ''Region.r.other''\<rparr>
      (token_event \<lparr>effects = [sample_other, sample_applied]\<rparr> \<lparr>isSelf = False\<rparr>)
     = \<lparr>calls = [Update 1 \<lparr>patch_duration = Some 5, patch_disabled = None\<rparr>], unhandled = []\<rparr>
   \<and> host_calls sample_host [Update 1 \<lparr>patch_duration = Some 5, patch_disabled = None\<rparr>]
        [sample_other, sample_applied] = [sample_other, sample_applied\<lparr>duration := 5\<rparr>]
   \<and> ActiveEffectEvents_handleRegionEvent sample_host
      \<lparr>effect_action = Some ''resetDuration'', effect_uuid = Some ''Item.i.ActiveEffect.e'',
       effect_name = Some ''Haste'', parent_uuid = ''Region.r.other''\<rparr>
      (token_event \<lparr>effects = [sample_other]\<rparr> \<lparr>isSelf = False\<rparr>)
     = \<lparr>calls = [], unhandled = []\<rparr>"
  using C9_reset_duration_by_template_name
          [of "token_event \<lparr>effects = [sample_other, sample_applied]\<rparr> \<lparr>isSelf = False\<rparr>"
              "\<lparr>effects = [sample_other, sample_applied]\<rparr>" sample_host "\<lparr>isSelf = True\<rparr>"
              "\<lparr>effect_action = Some ''resetDuration'',
                effect_uuid = Some ''Item.i.ActiveEffect.e'',
                effect_name = Some ''Haste'', parent_uuid = ''Region.r.other''\<rparr>"
              sample_template]
        C9_reset_duration_by_template_name
          [of "token_event \<lparr>effects = [sample_other]\<rparr> \<lparr>isSelf = False\<rparr>"
              "\<lparr>effects = [sample_other]\<rparr>" sample_host "\<lparr>isSelf = True\<rparr>"
              "\<lparr>effect_action = Some ''resetDuration'',
                effect_uuid = Some ''Item.i.ActiveEffect.e'',
                effect_name = Some ''Haste'', parent_uuid = ''Region.r.other''\<rparr>"
              sample_template]
  by (simp add: sample_defs model_defs)

subsection \<open>The origin of a created effect\<close>

lemma applyEffectToActor_Create:
  assumes "applyEffectToActor h effect a b = Inr cs" and "Create d \<in> set cs"
  shows "\<exists>t. effect = Some t \<and> d = t\<lparr>disabled := False, transfer := False, origin := Some b\<rparr>"
  using assms
  by (auto simp: applyEffectToActor_def split: option.splits)

lemma not_awaited_calls:
  "c \<in> set (calls (not_awaited r)) \<Longrightarrow> \<exists>cs. r = Inr cs \<and> c \<in> set cs"
  by (cases r) (simp_all add: not_awaited_def)

lemma enter_Create:
  assumes "Create d \<in> set (calls (ActiveEffect_onTokenEnter h this ev))"
  shows "truthy (uuid this) \<and>
    (\<exists>t. fromUuid h (uuid this) = Some t
        \<and> d = t\<lparr>disabled := False, transfer := False, origin := Some (behavior_uuid this)\<rparr>)"
proof (cases "event_actor ev")
  case None
  with assms show ?thesis
    by (simp add: ActiveEffect_onTokenEnter_def no_op_def)
next
  case (Some a)
  show ?thesis
  proof (cases "truthy (uuid this) \<and> isSelf (user ev)")
    case False
    then have "ActiveEffect_onTokenEnter h this ev = no_op"
      using Some by (auto simp: ActiveEffect_onTokenEnter_def)
    with assms show ?thesis
      by (simp add: no_op_def)
  next
    case True
    with assms Some have "Create d \<in> set (calls (not_awaited
        (applyEffectToActor h (fromUuid h (uuid this)) a (behavior_uuid this))))"
      by (simp add: ActiveEffect_onTokenEnter_def)
    then obtain cs
      where "applyEffectToActor h (fromUuid h (uuid this)) a (behavior_uuid this) = Inr cs"
        and "Create d \<in> set cs"
      by (blast dest: not_awaited_calls)
    then show ?thesis using True by (blast dest: applyEffectToActor_Create)
  qed
qed

lemma events_no_Create:
  assumes "effect_action that \<noteq> Some ''add''"
  shows "Create d \<notin> set (calls (ActiveEffectEvents_handleRegionEvent h that ev))"
proof (cases "event_actor ev")
  case None
  then show ?thesis
    by (simp add: ActiveEffectEvents_handleRegionEvent_def no_op_def)
next
  case (Some a)
  have reset: "Create d \<notin> set (calls (not_awaited (onResetDuration h that a)))"
    by (simp add: onResetDuration_def not_awaited_def split: option.splits)
  have toggle: "Create d \<notin> set (calls (not_awaited (onEnableDisable that a x)))" for x
    by (simp add: onEnableDisable_def not_awaited_def split: option.splits)
  have delete: "Create d \<notin> set (calls (case getName (effects a) (effect_name that) of
       Some existingEffect \<Rightarrow> \<lparr>calls = [Delete existingEffect], unhandled = []\<rparr>
     | None \<Rightarrow> no_op))"
    by (simp add: no_op_def split: option.splits)
  show ?thesis
    unfolding ActiveEffectEvents_handleRegionEvent_def
    using assms reset toggle delete by (simp add: Some no_op_def)
qed

lemma events_Create:
  assumes "Create d \<in> set (calls (ActiveEffectEvents_handleRegionEvent h that ev))"
  shows "\<exists>t. fromUuid h (effect_uuid that) = Some t
        \<and> d = t\<lparr>disabled := False, transfer := False, origin := Some (parent_uuid that)\<rparr>"
proof (cases "event_actor ev")
  case None
  with assms show ?thesis
    by (simp add: ActiveEffectEvents_handleRegionEvent_def no_op_def)
next
  case (Some a)
  from assms have add: "effect_action that = Some ''add''"
    using events_no_Create [of that d h ev] by blast
  show ?thesis
  proof (cases "case activeGM h of None \<Rightarrow> False | Some gm \<Rightarrow> isSelf gm")
    case False
    with assms Some show ?thesis
      by (simp add: ActiveEffectEvents_handleRegionEvent_def no_op_def)
  next
    case True
    with assms Some add have "Create d \<in> set (calls (not_awaited
        (applyEffectToActor h (fromUuid h (effect_uuid that)) a (parent_uuid that))))"
      by (simp add: ActiveEffectEvents_handleRegionEvent_def)
    then obtain cs
      where "applyEffectToActor h (fromUuid h (effect_uuid that)) a (parent_uuid that) = Inr cs"
        and "Create d \<in> set cs"
      by (blast dest: not_awaited_calls)
    then show ?thesis by (blast dest: applyEffectToActor_Create)
  qed
qed

lemma findIndex_member: "x \<in> set xs \<Longrightarrow> P x \<Longrightarrow> \<exists>i. findIndex P xs = Some i"
  using findIndex_None_iff [of P xs] by (cases "findIndex P xs") auto

text \<open>
  C10. Every document that token enter of ActiveEffectRegionBehaviorType or the event
  handler of ActiveEffectEventsRegionBehaviorType creates has the behavior's uuid as its
  origin, \<^verbatim>\<open>transfer\<close> false and \<^verbatim>\<open>disabled\<close> false, whatever the template has. The
  origin is what the later lookups compare: on any actor that has the created document,
  token exit and a further token enter of the behavior find an effect by that origin and
  act on it.
\<close>

theorem C10_created_effect_has_behavior_origin:
  fixes h :: "'d host"
  shows
  "(Create d \<in> set (calls (ActiveEffect_onTokenEnter h this ev)) \<longrightarrow>
      origin d = Some (behavior_uuid this) \<and> \<not> transfer d \<and> \<not> disabled d
    \<and> (\<forall>ev' a'. event_actor ev' = Some a' \<and> d \<in> set (effects a') \<and> isSelf (user ev') \<longrightarrow>
          (\<exists>i. findIndex (\<lambda>e. origin e = Some (behavior_uuid this)) (effects a') = Some i
              \<and> calls (ActiveEffect_onTokenExit this ev')
                  = [if disable this
                     then Update i \<lparr>patch_duration = None, patch_disabled = Some True\<rparr>
                     else Delete i]
              \<and> calls (ActiveEffect_onTokenEnter h this ev')
                  = [Update i \<lparr>patch_duration = Some (getInitialDuration h),
                                patch_disabled = Some False\<rparr>])))
   \<and> (Create d \<in> set (calls (ActiveEffectEvents_handleRegionEvent h that ev)) \<longrightarrow>
        origin d = Some (parent_uuid that) \<and> \<not> transfer d \<and> \<not> disabled d)"
proof (intro conjI impI allI)
  assume c: "Create d \<in> set (calls (ActiveEffect_onTokenEnter h this ev))"
  from enter_Create [OF c] obtain t where u: "truthy (uuid this)"
    and t: "fromUuid h (uuid this) = Some t"
    and d: "d = t\<lparr>disabled := False, transfer := False, origin := Some (behavior_uuid this)\<rparr>"
    by blast
  show o: "origin d = Some (behavior_uuid this)" and "\<not> transfer d" and "\<not> disabled d"
    by (simp_all add: d)
  fix ev' :: "'d region_event" and a'
  assume g: "event_actor ev' = Some a' \<and> d \<in> set (effects a') \<and> isSelf (user ev')"
  from g o have "\<exists>i. findIndex (\<lambda>e. origin e = Some (behavior_uuid this)) (effects a') = Some i"
    by (intro findIndex_member [of d]) simp_all
  then obtain i
    where i: "findIndex (\<lambda>e. origin e = Some (behavior_uuid this)) (effects a') = Some i" ..
  have "calls (ActiveEffect_onTokenExit this ev')
          = [if disable this
             then Update i \<lparr>patch_duration = None, patch_disabled = Some True\<rparr>
             else Delete i]"
    using g u i by (simp add: ActiveEffect_onTokenExit_def)
  moreover have "calls (ActiveEffect_onTokenEnter h this ev')
          = [Update i \<lparr>patch_duration = Some (getInitialDuration h), patch_disabled = Some False\<rparr>]"
    using g u i t by (simp add: ActiveEffect_onTokenEnter_def applyEffectToActor_def not_awaited_def)
  ultimately show "\<exists>i. findIndex (\<lambda>e. origin e = Some (behavior_uuid this)) (effects a') = Some i
              \<and> calls (ActiveEffect_onTokenExit this ev')
                  = [if disable this
                     then Update i \<lparr>patch_duration = None, patch_disabled = Some True\<rparr>
                     else Delete i]
              \<and> calls (ActiveEffect_onTokenEnter h this ev')
                  = [Update i \<lparr>patch_duration = Some (getInitialDuration h),
                                patch_disabled = Some False\<rparr>]"
    using i by blast
next
  assume c: "Create d \<in> set (calls (ActiveEffectEvents_handleRegionEvent h that ev))"
  from events_Create [OF c] obtain t where
    d: "d = t\<lparr>disabled := False, transfer := False, origin := Some (parent_uuid that)\<rparr>"
    by blast
  show "origin d = Some (parent_uuid that)" and "\<not> transfer d" and "\<not> disabled d"
    by (simp_all add: d)
qed

theorem C10_witness:
  "transfer sample_template \<and> disabled sample_template
   \<and> Create \<lparr>name = ''Bless'', origin = Some ''Region.r.b'', disabled = False,
               transfer = False, duration = 0\<rparr>
       \<in> set (calls (ActiveEffect_onTokenEnter sample_host sample_behavior
                 (token_event \<lparr>effects = [sample_other]\<rparr> \<lparr>isSelf = True\<rparr>)))
   \<and> Create \<lparr>name = ''Bless'', origin = Some ''Region.r.b'', disabled = False,
               transfer = False, duration = 0\<rparr>
       \<in> set (calls (ActiveEffectEvents_handleRegionEvent sample_host sample_events_behavior
                 (token_event \<lparr>effects = [sample_other]\<rparr> \<lparr>isSelf = True\<rparr>)))
   \<and> calls (ActiveEffect_onTokenExit sample_behavior
         (token_event \<lparr>effects = [sample_other, \<lparr>name = ''Bless'',
            origin = Some ''Region.r.b'', disabled = False, transfer = False,
            duration = 0\<rparr>]\<rparr> \<lparr>isSelf = True\<rparr>)) = [Delete 1]"
  using C10_created_effect_has_behavior_origin
          [of "\<lparr>name = ''Bless'', origin = Some ''Region.r.b'', disabled = False,
                transfer = False, duration = 0\<rparr>"
              sample_host sample_behavior
              "token_event \<lparr>effects = [sample_other]\<rparr> \<lparr>isSelf = True\<rparr>"
              sample_events_behavior]
  by (simp add: sample_defs model_defs)

end
